theory Spec2Isabelle
  imports
    Main
    "HOL-Library.Sublist"
    "HOL-Library.Multiset"
    "HOL-Library.List_Lexorder"
begin

section \<open>Travel journal backend: posts, their store and the route handlers\<close>

text \<open>
  The repository is one Express application (\<^verbatim>\<open>index.ts\<close>) over one Mongoose model
  (\<^verbatim>\<open>models/Post.ts\<close>). Each route handler is embedded as a function from the
  request and the state of the world to a response and the new state. The state holds
  the collection of posts, the log of uploads sent to the media host, and two counters:
  how often the wall clock has been read and how many identifiers have been generated.

  What the handlers obtain from outside the repository is a field of the environment:
  the wall clock, the identifier generator, the media host, the wording of the store's
  error messages, the folding of letter case beyond ASCII, and the parts of the
  regular-expression and identifier syntax that are not modelled here.

  Request fields are text or absent, as the fields of a multipart form are. Failures of
  the connection to the store are not modelled.
\<close>

subsection \<open>Text\<close>

text \<open>
  A text, of type \<open>ustring\<close>, is the list of the Unicode code points of a JavaScript
  string. The store compares texts by their UTF-8 bytes, which is the lexicographic
  order of the code points. \<open>ascii\<close> gives the text of an ASCII literal.
\<close>

type_synonym ustring = "nat list"

definition ascii :: "string \<Rightarrow> ustring" where
  "ascii s = map of_char s"

text \<open>The length of a text as JavaScript counts it, in UTF-16 code units.\<close>

definition utf16_length :: "ustring \<Rightarrow> nat" where
  "utf16_length s = sum_list (map (\<lambda>c. if 65536 \<le> c then 2 else 1) s)"

subsection \<open>The Post schema (\<^verbatim>\<open>models/Post.ts\<close>)\<close>

type_synonym object_id = ustring
type_synonym time = int

record post =
  oid :: object_id
  title :: ustring
  content :: ustring
  imageUrl :: "ustring option"
  location :: "ustring option"
  tags :: "ustring list"
  createdAt :: time
  updatedAt :: time

subsection \<open>Requests, responses, environment and state\<close>

record upload_file =
  mimetype :: string
  buffer :: string

text \<open>The \<^verbatim>\<open>tags\<close> field of a request body: one text value, or an array of them.\<close>

datatype tags_value = TagText ustring | TagArray "ustring list"

record req_body =
  body_title :: "ustring option"
  body_content :: "ustring option"
  body_imageUrl :: "ustring option"
  body_location :: "ustring option"
  body_tags :: "tags_value option"

record write_request =
  body :: req_body
  req_file :: "upload_file option"

datatype json = Message string | Doc post | Docs "post list" | Names "ustring list" | Null

type_synonym response = "nat \<times> json"

text \<open>
  What the store library can throw at a handler: the cast of an identifier that fails
  (with the value that was given), a schema validation that fails, and an insertion
  under an identifier that is taken. The wording of \<^verbatim>\<open>error.message\<close> is the
  library's, so the environment renders it.
\<close>

datatype store_error = CastError ustring | ValidationError | DuplicateKey object_id

record environment =
  clock :: "nat \<Rightarrow> time"
  new_ObjectId :: "nat \<Rightarrow> object_id"
  uploader :: "upload_file \<Rightarrow> string + ustring"
  regexp_engine :: "ustring \<Rightarrow> string + (ustring \<Rightarrow> bool)"
  fold_case :: "nat \<Rightarrow> nat"
  legacy_id :: "ustring \<Rightarrow> object_id option"
  message_of :: "store_error \<Rightarrow> string"

record state =
  posts :: "post list"
  uploads :: "upload_file list"
  ticks :: nat
  ids_made :: nat

definition init :: state where
  "init = \<lparr>posts = [], uploads = [], ticks = 0, ids_made = 0\<rparr>"

subsection \<open>JavaScript values\<close>

text \<open>A text value is truthy when it is present and not the empty string.\<close>

definition truthy :: "ustring option \<Rightarrow> bool" where
  "truthy v = (case v of None \<Rightarrow> False | Some s \<Rightarrow> s \<noteq> [])"

text \<open>An array is truthy even when it is empty.\<close>

definition truthy_tags :: "tags_value option \<Rightarrow> bool" where
  "truthy_tags v =
     (case v of None \<Rightarrow> False | Some (TagText s) \<Rightarrow> s \<noteq> [] | Some (TagArray xs) \<Rightarrow> True)"

text \<open>\<^verbatim>\<open>a || b\<close> on optional text.\<close>

definition js_or :: "ustring option \<Rightarrow> ustring option \<Rightarrow> ustring option" where
  "js_or a b = (if truthy a then a else b)"

text \<open>\<^verbatim>\<open>Date.now()\<close> and \<^verbatim>\<open>new Date()\<close>: the next reading of the wall clock.\<close>

definition Date_now :: "environment \<Rightarrow> state \<Rightarrow> time \<times> state" where
  "Date_now env st = (clock env (ticks st), st\<lparr>ticks := Suc (ticks st)\<rparr>)"

text \<open>
  \<^verbatim>\<open>String.prototype.trim\<close> removes white space and line terminators at both ends:
  the code points U+0009 to U+000D, U+0020, U+00A0, U+1680, U+2000 to U+200A, U+2028,
  U+2029, U+202F, U+205F, U+3000 and U+FEFF.
\<close>

definition is_space :: "nat \<Rightarrow> bool" where
  "is_space c =
     ((9 \<le> c \<and> c \<le> 13) \<or> c = 32 \<or> c = 160 \<or> c = 5760 \<or> (8192 \<le> c \<and> c \<le> 8202) \<or>
      c = 8232 \<or> c = 8233 \<or> c = 8239 \<or> c = 8287 \<or> c = 12288 \<or> c = 65279)"

definition trim :: "ustring \<Rightarrow> ustring" where
  "trim s = rev (dropWhile is_space (rev (dropWhile is_space s)))"

subsection \<open>Regular expressions with the flag \<^verbatim>\<open>i\<close>\<close>

text \<open>
  The search term is handed to \<^verbatim>\<open>new RegExp(searchTerm, 'i')\<close> without escaping, and
  the store evaluates the pattern. The fragment modelled here is: plain characters,
  which match themselves up to letter case, and the alternation bar. A plain character
  is a code point that is no syntax character of regular expressions, no surrogate, and
  none of U+0000, U+2028 and U+2029, which do not reach the store as they are written. A
  pattern with any other character is left to the environment's engine, which answers
  with a message when the pattern is refused.

  Letter case is folded by the engine. On ASCII the folding identifies the letters a to
  z with A to Z and nothing else; on the other code points it is the environment's
  \<open>fold_case\<close>.
\<close>

definition canonicalize :: "environment \<Rightarrow> nat \<Rightarrow> nat" where
  "canonicalize env c =
     (if c < 128 then (if 97 \<le> c \<and> c \<le> 122 then c - 32 else c) else fold_case env c)"

definition syntax_characters :: ustring where
  "syntax_characters =
     ascii [CHR ''^'', CHR ''$'', CHR 0x5C, CHR ''.'', CHR ''*'', CHR ''+'', CHR ''?'',
          CHR ''('', CHR '')'', CHR ''['', CHR '']'', CHR ''{'', CHR ''}'', CHR ''|'']"

definition is_syntax_character :: "nat \<Rightarrow> bool" where
  "is_syntax_character c = (c \<in> set syntax_characters)"

definition is_plain :: "nat \<Rightarrow> bool" where
  "is_plain c =
     (0 < c \<and> c \<le> 1114111 \<and> \<not> (55296 \<le> c \<and> c \<le> 57343) \<and> c \<noteq> 8232 \<and> c \<noteq> 8233 \<and>
      \<not> is_syntax_character c)"

definition bar :: nat where
  "bar = of_char (CHR ''|'')"

fun matches_at :: "environment \<Rightarrow> ustring \<Rightarrow> ustring \<Rightarrow> bool" where
  "matches_at env [] s = True"
| "matches_at env (c # cs) [] = False"
| "matches_at env (c # cs) (d # ds) =
     (canonicalize env c = canonicalize env d \<and> matches_at env cs ds)"

fun search_from :: "environment \<Rightarrow> ustring \<Rightarrow> ustring \<Rightarrow> bool" where
  "search_from env p [] = matches_at env p []"
| "search_from env p (d # ds) = (matches_at env p (d # ds) \<or> search_from env p ds)"

fun split_bar :: "ustring \<Rightarrow> ustring list" where
  "split_bar [] = [[]]"
| "split_bar (c # cs) =
     (if c = bar then [] # split_bar cs
      else (case split_bar cs of [] \<Rightarrow> [[c]] | a # as \<Rightarrow> (c # a) # as))"

definition test_alternatives :: "environment \<Rightarrow> ustring list \<Rightarrow> ustring \<Rightarrow> bool" where
  "test_alternatives env alts s = list_ex (\<lambda>a. search_from env a s) alts"

definition in_fragment :: "ustring \<Rightarrow> bool" where
  "in_fragment p = list_all (\<lambda>c. c = bar \<or> is_plain c) p"

definition new_RegExp :: "environment \<Rightarrow> ustring \<Rightarrow> string + (ustring \<Rightarrow> bool)" where
  "new_RegExp env p =
     (if in_fragment p then Inr (test_alternatives env (split_bar p)) else regexp_engine env p)"

subsection \<open>The store: identifiers, queries, save and update\<close>

text \<open>
  A request names a post by text. The store casts it to an identifier: 24 hexadecimal
  digits, compared without case. Some releases of the store's driver also accept a text
  of 12 code units as raw bytes; that case is left to the environment. Any other text
  fails the cast, which the store throws as an error.
\<close>

definition is_hex :: "nat \<Rightarrow> bool" where
  "is_hex c = (c \<in> set (ascii ''0123456789abcdefABCDEF''))"

definition lower :: "nat \<Rightarrow> nat" where
  "lower c = (if 65 \<le> c \<and> c \<le> 90 then c + 32 else c)"

definition hex24 :: "ustring \<Rightarrow> bool" where
  "hex24 s = (utf16_length s = 24 \<and> list_all is_hex s)"

definition castObjectId :: "environment \<Rightarrow> ustring \<Rightarrow> object_id option" where
  "castObjectId env s =
     (if hex24 s then Some (map lower s)
      else if utf16_length s = 12 then legacy_id env s
      else None)"

definition findById :: "environment \<Rightarrow> ustring \<Rightarrow> state \<Rightarrow> store_error + post option" where
  "findById env rid st =
     (case castObjectId env rid of
        None \<Rightarrow> Inl (CastError rid)
      | Some i \<Rightarrow> Inr (find (\<lambda>p. oid p = i) (posts st)))"

text \<open>
  \<^verbatim>\<open>new Post({...})\<close>: the identifier is generated and the two schema defaults
  \<^verbatim>\<open>Date.now\<close> are evaluated when the document is constructed.
\<close>

definition new_Post ::
  "environment \<Rightarrow> ustring \<Rightarrow> ustring \<Rightarrow> ustring option \<Rightarrow> ustring option \<Rightarrow> ustring list \<Rightarrow>
   state \<Rightarrow> post \<times> state" where
  "new_Post env t c img loc tgs st =
     (let i = new_ObjectId env (ids_made st);
          st1 = st\<lparr>ids_made := Suc (ids_made st)\<rparr>;
          (created, st2) = Date_now env st1;
          (updated, st3) = Date_now env st2
      in (\<lparr>oid = i, title = t, content = c, imageUrl = img, location = loc, tags = tgs,
           createdAt = created, updatedAt = updated\<rparr>, st3))"

text \<open>
  \<^verbatim>\<open>save()\<close>: the schema's \<^verbatim>\<open>required\<close> validators, then the \<^verbatim>\<open>pre('save')\<close> hook,
  which sets \<^verbatim>\<open>updatedAt\<close> to a new reading of the clock, then the insertion, which the
  store refuses for an identifier it already holds.
\<close>

definition validate :: "post \<Rightarrow> bool" where
  "validate p = (title p \<noteq> [] \<and> content p \<noteq> [])"

definition pre_save :: "environment \<Rightarrow> post \<Rightarrow> state \<Rightarrow> post \<times> state" where
  "pre_save env p st = (let (now, st1) = Date_now env st in (p\<lparr>updatedAt := now\<rparr>, st1))"

definition save :: "environment \<Rightarrow> post \<Rightarrow> state \<Rightarrow> (store_error + post) \<times> state" where
  "save env p st =
     (if \<not> validate p then (Inl ValidationError, st)
      else (let (p1, st1) = pre_save env p st in
            if list_ex (\<lambda>q. oid q = oid p1) (posts st1)
            then (Inl (DuplicateKey (oid p1)), st1)
            else (Inr p1, st1\<lparr>posts := posts st1 @ [p1]\<rparr>)))"

text \<open>
  The update document the handler passes to \<^verbatim>\<open>findByIdAndUpdate\<close>. A key whose value
  is \<^verbatim>\<open>undefined\<close> is \<open>None\<close>. The schema file imports the hook type
  \<^verbatim>\<open>CallbackWithoutResultAndOptionalError\<close>, which the store library declares from its
  major version 6 on; from that version the library removes the keys of an update whose
  value is \<^verbatim>\<open>undefined\<close> before it sends the update, so such a key leaves the stored
  field as it is. A text given for the array field \<^verbatim>\<open>tags\<close> is cast to a one-element
  array.
\<close>

record update_doc =
  set_title :: "ustring option"
  set_content :: "ustring option"
  set_imageUrl :: "ustring option"
  set_location :: "ustring option"
  set_tags :: "tags_value option"
  set_updatedAt :: time

definition cast_tags :: "tags_value \<Rightarrow> ustring list" where
  "cast_tags v = (case v of TagText s \<Rightarrow> [s] | TagArray xs \<Rightarrow> xs)"

definition apply_update :: "update_doc \<Rightarrow> post \<Rightarrow> post" where
  "apply_update u p =
     p\<lparr>title := (case set_title u of None \<Rightarrow> title p | Some t \<Rightarrow> t),
       content := (case set_content u of None \<Rightarrow> content p | Some c \<Rightarrow> c),
       imageUrl := (case set_imageUrl u of None \<Rightarrow> imageUrl p | Some i \<Rightarrow> Some i),
       location := (case set_location u of None \<Rightarrow> location p | Some l \<Rightarrow> Some l),
       tags := (case set_tags u of None \<Rightarrow> tags p | Some v \<Rightarrow> cast_tags v),
       updatedAt := set_updatedAt u\<rparr>"

fun update_first :: "object_id \<Rightarrow> (post \<Rightarrow> post) \<Rightarrow> post list \<Rightarrow> post option \<times> post list" where
  "update_first i f [] = (None, [])"
| "update_first i f (p # ps) =
     (if oid p = i then (Some (f p), f p # ps)
      else (let (r, ps') = update_first i f ps in (r, p # ps')))"

definition findByIdAndUpdate ::
  "environment \<Rightarrow> ustring \<Rightarrow> update_doc \<Rightarrow> state \<Rightarrow> (store_error + post option) \<times> state" where
  "findByIdAndUpdate env rid u st =
     (case castObjectId env rid of
        None \<Rightarrow> (Inl (CastError rid), st)
      | Some i \<Rightarrow>
          (let (r, ps) = update_first i (apply_update u) (posts st)
           in (Inr r, st\<lparr>posts := ps\<rparr>)))"

fun remove_first :: "object_id \<Rightarrow> post list \<Rightarrow> post option \<times> post list" where
  "remove_first i [] = (None, [])"
| "remove_first i (p # ps) =
     (if oid p = i then (Some p, ps)
      else (let (r, ps') = remove_first i ps in (r, p # ps')))"

definition findByIdAndDelete ::
  "environment \<Rightarrow> ustring \<Rightarrow> state \<Rightarrow> (store_error + post option) \<times> state" where
  "findByIdAndDelete env rid st =
     (case castObjectId env rid of
        None \<Rightarrow> (Inl (CastError rid), st)
      | Some i \<Rightarrow>
          (let (r, ps) = remove_first i (posts st) in (Inr r, st\<lparr>posts := ps\<rparr>)))"

text \<open>
  \<^verbatim>\<open>sort({ createdAt: -1 })\<close>: newest first. The store leaves the order of posts with
  equal \<^verbatim>\<open>createdAt\<close> open; the model keeps them in collection order.
\<close>

definition sort_createdAt_desc :: "post list \<Rightarrow> post list" where
  "sort_createdAt_desc ps = sort_key (\<lambda>p. - createdAt p) ps"

text \<open>The filter \<^verbatim>\<open>{ $or: [title, content, location, tags] }\<close> with one pattern.\<close>

definition or_query :: "(ustring \<Rightarrow> bool) \<Rightarrow> post \<Rightarrow> bool" where
  "or_query rx p =
     (rx (title p) \<or> rx (content p) \<or>
      (case location p of None \<Rightarrow> False | Some l \<Rightarrow> rx l) \<or>
      list_ex rx (tags p))"

text \<open>
  The aggregation pipeline of the tag listing, stage by stage. \<^verbatim>\<open>$sort: { tag: 1 }\<close>
  is the store's comparison of texts: code point by code point.
\<close>

definition unwind_tags :: "post list \<Rightarrow> ustring list" where
  "unwind_tags ps = concat (map tags ps)"

definition group_by_tag :: "ustring list \<Rightarrow> ustring list" where
  "group_by_tag ts = remdups ts"

definition sort_tag_asc :: "ustring list \<Rightarrow> ustring list" where
  "sort_tag_asc ts = sort ts"

definition aggregate_tags :: "post list \<Rightarrow> ustring list" where
  "aggregate_tags ps = sort_tag_asc (group_by_tag (unwind_tags ps))"

text \<open>
  The upload to the media host. The data URI built from the MIME type and the
  base64 text of the buffer is part of the environment's \<open>uploader\<close>, which answers
  with the message of the failure or with the URL; every attempt is logged in the state.
\<close>

definition upload :: "environment \<Rightarrow> upload_file \<Rightarrow> state \<Rightarrow> (string + ustring) \<times> state" where
  "upload env f st = (uploader env f, st\<lparr>uploads := uploads st @ [f]\<rparr>)"

subsection \<open>The route handlers (\<^verbatim>\<open>index.ts\<close>)\<close>

text \<open>GET /api/posts\<close>

definition get_posts :: "environment \<Rightarrow> ustring option \<Rightarrow> state \<Rightarrow> response \<times> state" where
  "get_posts env search st =
     (if truthy search then
        (let searchTerm = trim (case search of None \<Rightarrow> [] | Some s \<Rightarrow> s) in
         case new_RegExp env searchTerm of
           Inl m \<Rightarrow> ((500, Message m), st)
         | Inr searchRegex \<Rightarrow>
             ((200, Docs (sort_createdAt_desc (filter (or_query searchRegex) (posts st)))), st))
      else ((200, Docs (sort_createdAt_desc (posts st))), st))"

text \<open>GET /api/posts/:id\<close>

definition get_post :: "environment \<Rightarrow> ustring \<Rightarrow> state \<Rightarrow> response \<times> state" where
  "get_post env rid st =
     (case findById env rid st of
        Inl e \<Rightarrow> ((500, Message (message_of env e)), st)
      | Inr None \<Rightarrow> ((404, Message ''Post not found''), st)
      | Inr (Some p) \<Rightarrow> ((200, Doc p), st))"

text \<open>POST /api/posts\<close>

definition create_tags :: "tags_value option \<Rightarrow> ustring list" where
  "create_tags v =
     (if truthy_tags v
      then (case v of Some (TagArray xs) \<Rightarrow> xs | Some (TagText s) \<Rightarrow> [s] | None \<Rightarrow> [])
      else [])"

definition create_post :: "environment \<Rightarrow> write_request \<Rightarrow> state \<Rightarrow> response \<times> state" where
  "create_post env rq st =
     (if \<not> truthy (body_title (body rq)) \<or> \<not> truthy (body_content (body rq))
      then ((400, Message ''Title and content are required''), st)
      else
        (let (uploaded, st1) =
               (case req_file rq of
                  None \<Rightarrow> (Inr None, st)
                | Some f \<Rightarrow>
                    (case upload env f st of
                       (Inl e, s) \<Rightarrow> (Inl e, s)
                     | (Inr url, s) \<Rightarrow> (Inr (Some url), s)))
         in case uploaded of
              Inl e \<Rightarrow> ((400, Message (''Failed to create post: '' @ e)), st1)
            | Inr img \<Rightarrow>
                (let (newPost, st2) =
                       new_Post env (the (body_title (body rq))) (the (body_content (body rq)))
                         img (body_location (body rq)) (create_tags (body_tags (body rq))) st1
                 in case save env newPost st2 of
                      (Inl e, st3) \<Rightarrow>
                        ((400, Message (''Failed to create post: '' @ message_of env e)), st3)
                    | (Inr savedPost, st3) \<Rightarrow> ((201, Doc savedPost), st3))))"

text \<open>PUT /api/posts/:id\<close>

definition update_post ::
  "environment \<Rightarrow> ustring \<Rightarrow> write_request \<Rightarrow> state \<Rightarrow> response \<times> state" where
  "update_post env rid rq st =
     (case findById env rid st of
        Inl e \<Rightarrow> ((400, Message (''Failed to update post: '' @ message_of env e)), st)
      | Inr None \<Rightarrow> ((404, Message ''Post not found''), st)
      | Inr (Some existingPost) \<Rightarrow>
          (let (chosen, st1) =
                 (case req_file rq of
                    Some f \<Rightarrow>
                      (case upload env f st of
                         (Inl e, s) \<Rightarrow> (Inl e, s)
                       | (Inr url, s) \<Rightarrow> (Inr (Some url), s))
                  | None \<Rightarrow>
                      (Inr (js_or (body_imageUrl (body rq)) (imageUrl existingPost)), st))
           in case chosen of
                Inl e \<Rightarrow> ((400, Message (''Failed to update post: '' @ e)), st1)
              | Inr img \<Rightarrow>
                  (let (now, st2) = Date_now env st1;
                       u = \<lparr>set_title = body_title (body rq),
                            set_content = body_content (body rq),
                            set_imageUrl = img,
                            set_location = body_location (body rq),
                            set_tags = body_tags (body rq),
                            set_updatedAt = now\<rparr>
                   in case findByIdAndUpdate env rid u st2 of
                        (Inl e, st3) \<Rightarrow>
                          ((400, Message (''Failed to update post: '' @ message_of env e)), st3)
                      | (Inr None, st3) \<Rightarrow> ((200, Null), st3)
                      | (Inr (Some updatedPost), st3) \<Rightarrow> ((200, Doc updatedPost), st3))))"

text \<open>DELETE /api/posts/:id\<close>

definition delete_post :: "environment \<Rightarrow> ustring \<Rightarrow> state \<Rightarrow> response \<times> state" where
  "delete_post env rid st =
     (case findByIdAndDelete env rid st of
        (Inl e, st1) \<Rightarrow> ((500, Message (message_of env e)), st1)
      | (Inr None, st1) \<Rightarrow> ((404, Message ''Post not found''), st1)
      | (Inr (Some deletedPost), st1) \<Rightarrow> ((200, Message ''Post deleted successfully''), st1))"

text \<open>GET /api/tags\<close>

definition get_tags :: "state \<Rightarrow> response \<times> state" where
  "get_tags st = ((200, Names (aggregate_tags (posts st))), st)"

subsection \<open>Sequences of requests\<close>

datatype request =
    ListPosts "ustring option"
  | GetPost ustring
  | CreatePost write_request
  | UpdatePost ustring write_request
  | DeletePost ustring
  | ListTags

fun handle :: "environment \<Rightarrow> request \<Rightarrow> state \<Rightarrow> response \<times> state" where
  "handle env (ListPosts search) st = get_posts env search st"
| "handle env (GetPost rid) st = get_post env rid st"
| "handle env (CreatePost rq) st = create_post env rq st"
| "handle env (UpdatePost rid rq) st = update_post env rid rq st"
| "handle env (DeletePost rid) st = delete_post env rid st"
| "handle env ListTags st = get_tags st"

fun serve :: "environment \<Rightarrow> request list \<Rightarrow> state \<Rightarrow> state" where
  "serve env [] st = st"
| "serve env (r # rs) st = serve env rs (snd (handle env r st))"

subsection \<open>The properties in the words of the specification\<close>

text \<open>
  A term appears in a text, without regard to letter case, when the case-folded term is
  a contiguous part of the case-folded text.
\<close>

definition appears_in :: "environment \<Rightarrow> ustring \<Rightarrow> ustring \<Rightarrow> bool" where
  "appears_in env tm t = sublist (map (canonicalize env) tm) (map (canonicalize env) t)"

definition term_in_post :: "environment \<Rightarrow> ustring \<Rightarrow> post \<Rightarrow> bool" where
  "term_in_post env tm p =
     (appears_in env tm (title p) \<or> appears_in env tm (content p) \<or>
      (\<exists>l. location p = Some l \<and> appears_in env tm l) \<or>
      (\<exists>t \<in> set (tags p). appears_in env tm t))"



text \<open>
  The timestamps of a state are in order when no post was updated before it was created
  and no stored timestamp is ahead of the next reading of the clock.
\<close>

definition timestamps_ok :: "environment \<Rightarrow> state \<Rightarrow> bool" where
  "timestamps_ok env st =
     list_all (\<lambda>p. createdAt p \<le> updatedAt p \<and> updatedAt p \<le> clock env (ticks st)) (posts st)"

subsection \<open>Example data\<close>

definition kyoto_id :: object_id where
  "kyoto_id = ascii ''aaaaaaaaaaaaaaaaaaaaaaaa''"

text \<open>
  An environment whose clock advances by one millisecond at every reading, whose media
  host refuses an empty file, and whose engine folds the letters of Latin-1.
\<close>

definition example_env :: environment where
  "example_env =
     \<lparr>clock = (\<lambda>k. 1000 + int k),
      new_ObjectId = (\<lambda>k. if k = 0 then ascii ''aaaaaaaaaaaaaaaaaaaaaaaa''
                           else ascii ''bbbbbbbbbbbbbbbbbbbbbbbb''),
      uploader = (\<lambda>f. if buffer f = [] then Inl ''Empty file''
                       else Inr (ascii ''https://media.example/new.jpg'')),
      regexp_engine = (\<lambda>p. Inl ''Invalid regular expression''),
      fold_case = (\<lambda>c. if 224 \<le> c \<and> c \<le> 254 \<and> c \<noteq> 247 then c - 32 else c),
      legacy_id = (\<lambda>s. None),
      message_of = (\<lambda>e. ''Store error'')\<rparr>"

text \<open>An environment whose driver takes a text of 12 code units for an identifier.\<close>

definition legacy_env :: environment where
  "legacy_env = example_env\<lparr>legacy_id := (\<lambda>s. Some s)\<rparr>"

definition kyoto_post :: post where
  "kyoto_post =
     \<lparr>oid = ascii ''aaaaaaaaaaaaaaaaaaaaaaaa'', title = ascii ''Kyoto'', content = ascii ''temples'',
      imageUrl = Some (ascii ''https://media.example/old.jpg''), location = Some (ascii ''Japan''),
      tags = [ascii ''asia'', ascii ''temple''], createdAt = 1000, updatedAt = 1002\<rparr>"

definition kyoto_state :: state where
  "kyoto_state = \<lparr>posts = [kyoto_post], uploads = [], ticks = 3, ids_made = 1\<rparr>"

definition no_fields :: req_body where
  "no_fields =
     \<lparr>body_title = None, body_content = None, body_imageUrl = None,
      body_location = None, body_tags = None\<rparr>"

definition photo :: upload_file where
  "photo = \<lparr>mimetype = ''image/jpeg'', buffer = ''JFIF''\<rparr>"

definition empty_photo :: upload_file where
  "empty_photo = \<lparr>mimetype = ''image/jpeg'', buffer = []\<rparr>"

text \<open>A create request with its title left empty and a file attached.\<close>

definition untitled_request :: write_request where
  "untitled_request =
     \<lparr>body = no_fields\<lparr>body_title := Some [], body_content := Some (ascii ''temples'')\<rparr>,
      req_file = Some photo\<rparr>"

text \<open>A create request whose file the media host refuses.\<close>

definition refused_request :: write_request where
  "refused_request =
     \<lparr>body = no_fields\<lparr>body_title := Some (ascii ''Kyoto''),
                       body_content := Some (ascii ''temples'')\<rparr>,
      req_file = Some empty_photo\<rparr>"

text \<open>A create request without a file.\<close>

definition kyoto_request :: write_request where
  "kyoto_request =
     \<lparr>body = no_fields\<lparr>body_title := Some (ascii ''Kyoto''),
                       body_content := Some (ascii ''temples''),
                       body_tags := Some (TagArray [ascii ''asia'', ascii ''temple''])\<rparr>,
      req_file = None\<rparr>"

text \<open>An update request that supplies the content and nothing else.\<close>

definition content_only :: write_request where
  "content_only =
     \<lparr>body = no_fields\<lparr>body_content := Some (ascii ''ryokan'')\<rparr>, req_file = None\<rparr>"

text \<open>An update request that sends the image URL as the empty string.\<close>

definition empty_imageUrl :: write_request where
  "empty_imageUrl =
     \<lparr>body = no_fields\<lparr>body_title := Some (ascii ''Kyoto''),
                       body_content := Some (ascii ''temples''),
                       body_imageUrl := Some []\<rparr>,
      req_file = None\<rparr>"

text \<open>An update request that names an image URL in its body, and one that attaches a file.\<close>

definition linked_image :: write_request where
  "linked_image =
     \<lparr>body = no_fields\<lparr>body_imageUrl := Some (ascii ''https://media.example/linked.jpg'')\<rparr>,
      req_file = None\<rparr>"

definition attached_image :: write_request where
  "attached_image =
     \<lparr>body = no_fields\<lparr>body_imageUrl := Some (ascii ''https://media.example/linked.jpg'')\<rparr>,
      req_file = Some photo\<rparr>"

text \<open>The post that \<open>kyoto_request\<close> creates in the empty store.\<close>

definition kyoto_created :: post where
  "kyoto_created =
     \<lparr>oid = ascii ''aaaaaaaaaaaaaaaaaaaaaaaa'', title = ascii ''Kyoto'', content = ascii ''temples'',
      imageUrl = None, location = None, tags = [ascii ''asia'', ascii ''temple''],
      createdAt = 1000, updatedAt = 1002\<rparr>"

text \<open>
  An environment whose clock reads 1000 during the first three readings and 2000 from
  then on: every later request falls in one millisecond.
\<close>

definition burst_env :: environment where
  "burst_env = example_env\<lparr>clock := (\<lambda>k. if k < 3 then 1000 else 2000)\<rparr>"

text \<open>A collection of two posts, in the order of their creation.\<close>

definition nara_post :: post where
  "nara_post =
     \<lparr>oid = ascii ''bbbbbbbbbbbbbbbbbbbbbbbb'', title = ascii ''Nara'', content = ascii ''deer park'',
      imageUrl = None, location = Some (ascii ''Japan''),
      tags = [ascii ''temple'', ascii ''Zen'', ascii ''temple''], createdAt = 2000, updatedAt = 2002\<rparr>"

definition journal_state :: state where
  "journal_state = \<lparr>posts = [kyoto_post, nara_post], uploads = [], ticks = 6, ids_made = 2\<rparr>"

text \<open>A search term with a no-break space (U+00A0) before it and a space after it.\<close>

definition padded_kyo :: ustring where
  "padded_kyo = 160 # ascii ''KYO ''"


section \<open>Properties\<close>

subsection \<open>Lookup and update in the store\<close>

lemma update_first_find:
  "find (\<lambda>q. oid q = i) ps = Some p \<Longrightarrow> oid (f p) = i \<Longrightarrow>
   fst (update_first i f ps) = Some (f p) \<and>
   find (\<lambda>q. oid q = i) (snd (update_first i f ps)) = Some (f p)"
  by (induction ps) (auto simp: split_def)

lemma oid_apply_update: "oid (apply_update u p) = oid p"
  by (simp add: apply_update_def)

lemma find_oid: "find (\<lambda>q. oid q = i) ps = Some p \<Longrightarrow> oid p = i"
  by (induction ps) (auto split: if_splits)

lemma findById_Some:
  "findById env rid st = Inr (Some p) \<Longrightarrow>
   \<exists>i. castObjectId env rid = Some i \<and> find (\<lambda>q. oid q = i) (posts st) = Some p \<and> oid p = i"
  by (auto simp: findById_def dest: find_oid split: option.splits)

lemma findById_frame:
  "findById env rid (st\<lparr>ticks := t\<rparr>) = findById env rid st"
  "findById env rid (st\<lparr>uploads := us\<rparr>) = findById env rid st"
  "findById env rid (st\<lparr>ids_made := n\<rparr>) = findById env rid st"
  by (auto simp: findById_def split: option.splits)

lemma findByIdAndUpdate_found:
  assumes "findById env rid st = Inr (Some p)"
  shows "\<exists>st'. findByIdAndUpdate env rid u st = (Inr (Some (apply_update u p)), st') \<and>
           findById env rid st' = Inr (Some (apply_update u p)) \<and>
           uploads st' = uploads st \<and> ticks st' = ticks st \<and> ids_made st' = ids_made st"
proof -
  from assms obtain i where i: "castObjectId env rid = Some i"
    "find (\<lambda>q. oid q = i) (posts st) = Some p" "oid p = i"
    using findById_Some by blast
  have "oid (apply_update u p) = i" using i(3) by (simp add: oid_apply_update)
  from update_first_find [where f = "apply_update u", OF i(2) this] show ?thesis
    using i(1) by (simp add: findByIdAndUpdate_def findById_def split_def)
qed

lemma update_post_no_file:
  assumes "findById env rid st = Inr (Some p)" and "req_file rq = None"
  shows "\<exists>st'. update_post env rid rq st =
           ((200, Doc (apply_update
               \<lparr>set_title = body_title (body rq), set_content = body_content (body rq),
                set_imageUrl = js_or (body_imageUrl (body rq)) (imageUrl p),
                set_location = body_location (body rq), set_tags = body_tags (body rq),
                set_updatedAt = clock env (ticks st)\<rparr> p)), st') \<and>
         findById env rid st' = Inr (Some (apply_update
               \<lparr>set_title = body_title (body rq), set_content = body_content (body rq),
                set_imageUrl = js_or (body_imageUrl (body rq)) (imageUrl p),
                set_location = body_location (body rq), set_tags = body_tags (body rq),
                set_updatedAt = clock env (ticks st)\<rparr> p)) \<and>
         uploads st' = uploads st \<and> ticks st' = Suc (ticks st)"
proof -
  let ?u = "\<lparr>set_title = body_title (body rq), set_content = body_content (body rq),
                set_imageUrl = js_or (body_imageUrl (body rq)) (imageUrl p),
                set_location = body_location (body rq), set_tags = body_tags (body rq),
                set_updatedAt = clock env (ticks st)\<rparr>"
  let ?st2 = "st\<lparr>ticks := Suc (ticks st)\<rparr>"
  have "findById env rid ?st2 = Inr (Some p)"
    using assms(1) by (simp add: findById_frame)
  from findByIdAndUpdate_found [OF this, of ?u] obtain st' where
    st': "findByIdAndUpdate env rid ?u ?st2 = (Inr (Some (apply_update ?u p)), st')"
      "findById env rid st' = Inr (Some (apply_update ?u p))" "uploads st' = uploads ?st2"
      "ticks st' = ticks ?st2"
    by blast
  show ?thesis
    using assms st' by (simp add: update_post_def Date_now_def)
qed

lemma update_post_with_file:
  assumes "findById env rid st = Inr (Some p)" and "req_file rq = Some f"
    and "uploader env f = Inr url"
  shows "\<exists>st'. update_post env rid rq st =
           ((200, Doc (apply_update
               \<lparr>set_title = body_title (body rq), set_content = body_content (body rq),
                set_imageUrl = Some url,
                set_location = body_location (body rq), set_tags = body_tags (body rq),
                set_updatedAt = clock env (ticks st)\<rparr> p)), st') \<and>
         findById env rid st' = Inr (Some (apply_update
               \<lparr>set_title = body_title (body rq), set_content = body_content (body rq),
                set_imageUrl = Some url,
                set_location = body_location (body rq), set_tags = body_tags (body rq),
                set_updatedAt = clock env (ticks st)\<rparr> p)) \<and>
         uploads st' = uploads st @ [f] \<and> ticks st' = Suc (ticks st)"
proof -
  let ?u = "\<lparr>set_title = body_title (body rq), set_content = body_content (body rq),
                set_imageUrl = Some url,
                set_location = body_location (body rq), set_tags = body_tags (body rq),
                set_updatedAt = clock env (ticks st)\<rparr>"
  let ?st2 = "st\<lparr>uploads := uploads st @ [f], ticks := Suc (ticks st)\<rparr>"
  have "findById env rid ?st2 = Inr (Some p)"
    using assms(1) by (simp add: findById_frame)
  from findByIdAndUpdate_found [OF this, of ?u] obtain st' where
    st': "findByIdAndUpdate env rid ?u ?st2 = (Inr (Some (apply_update ?u p)), st')"
      "findById env rid st' = Inr (Some (apply_update ?u p))" "uploads st' = uploads ?st2"
      "ticks st' = ticks ?st2"
    by blast
  show ?thesis
    using assms st' by (simp add: update_post_def Date_now_def upload_def)
qed

lemma kyoto_found: "findById example_env kyoto_id kyoto_state = Inr (Some kyoto_post)"
  by (simp add: findById_def castObjectId_def hex24_def utf16_length_def kyoto_id_def
      kyoto_state_def kyoto_post_def is_hex_def lower_def example_env_def ascii_def)

subsection \<open>Creating a post\<close>

text \<open>
  Claim C2. A create request whose title or content is blank (missing or empty) is
  answered with status 400 and the validation message, and the state is returned as
  it was: no post is stored and no upload is sent to the media host.
\<close>

theorem create_blank_rejected:
  "body_title (body rq) = None \<or> body_title (body rq) = Some [] \<or>
   body_content (body rq) = None \<or> body_content (body rq) = Some [] \<Longrightarrow>
   create_post env rq st = ((400, Message ''Title and content are required''), st)"
  by (auto simp: create_post_def truthy_def)

theorem create_blank_rejected_witness:
  "body_title (body untitled_request) = Some [] \<and>
   req_file untitled_request = Some photo \<and>
   create_post example_env untitled_request init =
     ((400, Message ''Title and content are required''), init) \<and>
   posts init = [] \<and> uploads init = []"
proof -
  have h: "body_title (body untitled_request) = Some []"
    by (simp add: untitled_request_def no_fields_def)
  from create_blank_rejected [of untitled_request example_env init] h show ?thesis
    by (simp add: untitled_request_def init_def)
qed

text \<open>
  Claim C4. When a create request carries a file and the media host refuses the
  upload, the answer has status 400 and the collection of posts is as before.
\<close>

theorem create_upload_failure_aborts:
  "req_file rq = Some f \<Longrightarrow> uploader env f = Inl e \<Longrightarrow>
   fst (fst (create_post env rq st)) = 400 \<and> posts (snd (create_post env rq st)) = posts st"
  by (simp add: create_post_def upload_def)

theorem create_upload_failure_aborts_witness:
  "req_file refused_request = Some empty_photo \<and>
   uploader example_env empty_photo = Inl ''Empty file'' \<and>
   truthy (body_title (body refused_request)) \<and>
   truthy (body_content (body refused_request)) \<and>
   fst (fst (create_post example_env refused_request kyoto_state)) = 400 \<and>
   posts (snd (create_post example_env refused_request kyoto_state)) = [kyoto_post]"
proof -
  have f: "req_file refused_request = Some empty_photo"
    by (simp add: refused_request_def)
  have u: "uploader example_env empty_photo = Inl ''Empty file''"
    by (simp add: example_env_def empty_photo_def)
  have t: "truthy (body_title (body refused_request)) \<and>
           truthy (body_content (body refused_request))"
    by (simp add: refused_request_def no_fields_def truthy_def ascii_def)
  from create_upload_failure_aborts [OF f u, of kyoto_state] f u t show ?thesis
    by (simp add: kyoto_state_def)
qed

subsection \<open>Updating a post\<close>

text \<open>
  Claim C5. An update of an existing post with no file attached and no \<^verbatim>\<open>imageUrl\<close>
  in the body succeeds, and the stored post has the \<^verbatim>\<open>imageUrl\<close> it had before.
\<close>

theorem update_without_image_keeps_imageUrl:
  assumes "findById env rid st = Inr (Some p)"
    and "req_file rq = None" and "body_imageUrl (body rq) = None"
  shows "\<exists>p' st'. update_post env rid rq st = ((200, Doc p'), st') \<and>
           findById env rid st' = Inr (Some p') \<and> imageUrl p' = imageUrl p"
proof -
  have "imageUrl (apply_update
               \<lparr>set_title = body_title (body rq), set_content = body_content (body rq),
                set_imageUrl = js_or (body_imageUrl (body rq)) (imageUrl p),
                set_location = body_location (body rq), set_tags = body_tags (body rq),
                set_updatedAt = clock env (ticks st)\<rparr> p) = imageUrl p"
    using assms(3) by (simp add: apply_update_def js_or_def truthy_def split: option.splits)
  with update_post_no_file [OF assms(1,2)] show ?thesis by metis
qed

theorem update_without_image_keeps_imageUrl_witness:
  "findById example_env kyoto_id kyoto_state = Inr (Some kyoto_post) \<and>
   req_file content_only = None \<and> body_imageUrl (body content_only) = None \<and>
   (\<exists>p' st'. update_post example_env kyoto_id content_only kyoto_state = ((200, Doc p'), st') \<and>
      findById example_env kyoto_id st' = Inr (Some p') \<and>
      imageUrl p' = Some (ascii ''https://media.example/old.jpg''))"
proof -
  have f: "req_file content_only = None" by (simp add: content_only_def)
  have b: "body_imageUrl (body content_only) = None"
    by (simp add: content_only_def no_fields_def)
  have i: "imageUrl kyoto_post = Some (ascii ''https://media.example/old.jpg'')"
    by (simp add: kyoto_post_def)
  from update_without_image_keeps_imageUrl [OF kyoto_found f b] show ?thesis
    using kyoto_found f b i by simp
qed

text \<open>
  Claim C10. An update of an existing post with no file attached whose body gives
  \<^verbatim>\<open>imageUrl\<close> as the empty string succeeds, and the stored post has the
  \<^verbatim>\<open>imageUrl\<close> it had before: the empty string is falsy, so the fallback applies.
\<close>

theorem update_empty_imageUrl_falls_back:
  assumes "findById env rid st = Inr (Some p)"
    and "req_file rq = None" and "body_imageUrl (body rq) = Some []"
  shows "\<exists>p' st'. update_post env rid rq st = ((200, Doc p'), st') \<and>
           findById env rid st' = Inr (Some p') \<and> imageUrl p' = imageUrl p"
proof -
  have "imageUrl (apply_update
               \<lparr>set_title = body_title (body rq), set_content = body_content (body rq),
                set_imageUrl = js_or (body_imageUrl (body rq)) (imageUrl p),
                set_location = body_location (body rq), set_tags = body_tags (body rq),
                set_updatedAt = clock env (ticks st)\<rparr> p) = imageUrl p"
    using assms(3) by (simp add: apply_update_def js_or_def truthy_def split: option.splits)
  with update_post_no_file [OF assms(1,2)] show ?thesis by metis
qed

theorem update_empty_imageUrl_falls_back_witness:
  "findById example_env kyoto_id kyoto_state = Inr (Some kyoto_post) \<and>
   req_file empty_imageUrl = None \<and> body_imageUrl (body empty_imageUrl) = Some [] \<and>
   (\<exists>p' st'. update_post example_env kyoto_id empty_imageUrl kyoto_state = ((200, Doc p'), st') \<and>
      findById example_env kyoto_id st' = Inr (Some p') \<and>
      imageUrl p' = Some (ascii ''https://media.example/old.jpg''))"
proof -
  have f: "req_file empty_imageUrl = None" by (simp add: empty_imageUrl_def)
  have b: "body_imageUrl (body empty_imageUrl) = Some []"
    by (simp add: empty_imageUrl_def no_fields_def)
  have i: "imageUrl kyoto_post = Some (ascii ''https://media.example/old.jpg'')"
    by (simp add: kyoto_post_def)
  from update_empty_imageUrl_falls_back [OF kyoto_found f b] show ?thesis
    using kyoto_found f b i by simp
qed

text \<open>
  Claim C1, as the code has it. An update of an existing post with no file, or with a
  file the media host accepts, succeeds; each of title, content, location and tags that
  the request supplies replaces the stored value (tags in their array form), and each of
  them that the request omits is left as it was stored, because the update carries it
  as \<^verbatim>\<open>undefined\<close> and the store library drops such keys. The image URL of the
  stored post is the URL of the upload when a file is attached, else the one of the
  request body when that is present and not empty, else the stored one.
\<close>

theorem update_sets_supplied_keeps_omitted:
  assumes "findById env rid st = Inr (Some p)"
    and "req_file rq = None \<or> (\<exists>f url. req_file rq = Some f \<and> uploader env f = Inr url)"
  shows "\<exists>p' st'. update_post env rid rq st = ((200, Doc p'), st') \<and>
           findById env rid st' = Inr (Some p') \<and>
           title p' = (case body_title (body rq) of Some t \<Rightarrow> t | None \<Rightarrow> title p) \<and>
           content p' = (case body_content (body rq) of Some c \<Rightarrow> c | None \<Rightarrow> content p) \<and>
           location p' =
             (case body_location (body rq) of Some l \<Rightarrow> Some l | None \<Rightarrow> location p) \<and>
           tags p' = (case body_tags (body rq) of Some v \<Rightarrow> cast_tags v | None \<Rightarrow> tags p) \<and>
           imageUrl p' =
             (case req_file rq of
                Some f \<Rightarrow> (case uploader env f of Inr url \<Rightarrow> Some url | Inl e \<Rightarrow> imageUrl p)
              | None \<Rightarrow>
                  (case body_imageUrl (body rq) of
                     Some u \<Rightarrow> if u = [] then imageUrl p else Some u
                   | None \<Rightarrow> imageUrl p))"
proof -
  have fields: "title (apply_update u p) = (case set_title u of Some t \<Rightarrow> t | None \<Rightarrow> title p) \<and>
     content (apply_update u p) = (case set_content u of Some c \<Rightarrow> c | None \<Rightarrow> content p) \<and>
     location (apply_update u p) =
       (case set_location u of Some l \<Rightarrow> Some l | None \<Rightarrow> location p) \<and>
     tags (apply_update u p) = (case set_tags u of Some v \<Rightarrow> cast_tags v | None \<Rightarrow> tags p) \<and>
     imageUrl (apply_update u p) =
       (case set_imageUrl u of Some i \<Rightarrow> Some i | None \<Rightarrow> imageUrl p)"
    for u
    by (simp add: apply_update_def split: option.splits)
  from assms(2) show ?thesis
  proof
    assume none: "req_file rq = None"
    let ?u = "\<lparr>set_title = body_title (body rq), set_content = body_content (body rq),
                set_imageUrl = js_or (body_imageUrl (body rq)) (imageUrl p),
                set_location = body_location (body rq), set_tags = body_tags (body rq),
                set_updatedAt = clock env (ticks st)\<rparr>"
    from update_post_no_file [OF assms(1) none] obtain st' where
      st': "update_post env rid rq st = ((200, Doc (apply_update ?u p)), st')"
      "findById env rid st' = Inr (Some (apply_update ?u p))"
      by blast
    have img: "(case js_or (body_imageUrl (body rq)) (imageUrl p) of
                  Some i \<Rightarrow> Some i | None \<Rightarrow> imageUrl p) =
               (case body_imageUrl (body rq) of
                  Some u \<Rightarrow> if u = [] then imageUrl p else Some u
                | None \<Rightarrow> imageUrl p)"
      by (simp add: js_or_def truthy_def split: option.splits)
    from st' fields [of ?u] img none show ?thesis by simp
  next
    assume "\<exists>f url. req_file rq = Some f \<and> uploader env f = Inr url"
    then obtain f url where fu: "req_file rq = Some f" "uploader env f = Inr url" by blast
    let ?u = "\<lparr>set_title = body_title (body rq), set_content = body_content (body rq),
                set_imageUrl = Some url,
                set_location = body_location (body rq), set_tags = body_tags (body rq),
                set_updatedAt = clock env (ticks st)\<rparr>"
    from update_post_with_file [OF assms(1) fu] obtain st' where
      st': "update_post env rid rq st = ((200, Doc (apply_update ?u p)), st')"
      "findById env rid st' = Inr (Some (apply_update ?u p))"
      by blast
    from st' fields [of ?u] fu show ?thesis by simp
  qed
qed

theorem update_sets_supplied_keeps_omitted_witness:
  "findById example_env kyoto_id kyoto_state = Inr (Some kyoto_post) \<and>
   (\<exists>p' st'. update_post example_env kyoto_id content_only kyoto_state = ((200, Doc p'), st') \<and>
      findById example_env kyoto_id st' = Inr (Some p') \<and>
      title p' = ascii ''Kyoto'' \<and> content p' = ascii ''ryokan'' \<and>
      location p' = Some (ascii ''Japan'') \<and> tags p' = [ascii ''asia'', ascii ''temple''] \<and>
      imageUrl p' = Some (ascii ''https://media.example/old.jpg'')) \<and>
   (\<exists>p' st'. update_post example_env kyoto_id linked_image kyoto_state = ((200, Doc p'), st') \<and>
      findById example_env kyoto_id st' = Inr (Some p') \<and>
      title p' = ascii ''Kyoto'' \<and>
      imageUrl p' = Some (ascii ''https://media.example/linked.jpg'')) \<and>
   (\<exists>p' st'. update_post example_env kyoto_id attached_image kyoto_state = ((200, Doc p'), st') \<and>
      findById example_env kyoto_id st' = Inr (Some p') \<and>
      title p' = ascii ''Kyoto'' \<and>
      imageUrl p' = Some (ascii ''https://media.example/new.jpg''))"
proof -
  have u: "uploader example_env photo = Inr (ascii ''https://media.example/new.jpg'')"
    by (simp add: example_env_def photo_def)
  have a: "req_file attached_image = None \<or>
           (\<exists>f url. req_file attached_image = Some f \<and> uploader example_env f = Inr url)"
    using u by (simp add: attached_image_def)
  have c: "req_file content_only = None \<or>
           (\<exists>f url. req_file content_only = Some f \<and> uploader example_env f = Inr url)"
    by (simp add: content_only_def)
  have l: "req_file linked_image = None \<or>
           (\<exists>f url. req_file linked_image = Some f \<and> uploader example_env f = Inr url)"
    by (simp add: linked_image_def)
  have nonempty: "ascii ''https://media.example/linked.jpg'' \<noteq> []"
    by (simp add: ascii_def)
  have first: "\<exists>p' st'. update_post example_env kyoto_id content_only kyoto_state =
        ((200, Doc p'), st') \<and>
      findById example_env kyoto_id st' = Inr (Some p') \<and>
      title p' = ascii ''Kyoto'' \<and> content p' = ascii ''ryokan'' \<and>
      location p' = Some (ascii ''Japan'') \<and> tags p' = [ascii ''asia'', ascii ''temple''] \<and>
      imageUrl p' = Some (ascii ''https://media.example/old.jpg'')"
  proof -
    from update_sets_supplied_keeps_omitted [OF kyoto_found c] obtain p' st' where
      h: "update_post example_env kyoto_id content_only kyoto_state = ((200, Doc p'), st')"
        "findById example_env kyoto_id st' = Inr (Some p')"
        "title p' = (case body_title (body content_only) of Some t \<Rightarrow> t
                     | None \<Rightarrow> title kyoto_post)"
        "content p' = (case body_content (body content_only) of Some c \<Rightarrow> c
                       | None \<Rightarrow> content kyoto_post)"
        "location p' = (case body_location (body content_only) of Some l \<Rightarrow> Some l
                        | None \<Rightarrow> location kyoto_post)"
        "tags p' = (case body_tags (body content_only) of Some v \<Rightarrow> cast_tags v
                    | None \<Rightarrow> tags kyoto_post)"
        "imageUrl p' =
           (case req_file content_only of
              Some f \<Rightarrow> (case uploader example_env f of Inr url \<Rightarrow> Some url
                         | Inl e \<Rightarrow> imageUrl kyoto_post)
            | None \<Rightarrow>
                (case body_imageUrl (body content_only) of
                   Some u \<Rightarrow> if u = [] then imageUrl kyoto_post else Some u
                 | None \<Rightarrow> imageUrl kyoto_post))"
      by blast
    from h(3-7) have "title p' = ascii ''Kyoto'' \<and> content p' = ascii ''ryokan'' \<and>
      location p' = Some (ascii ''Japan'') \<and> tags p' = [ascii ''asia'', ascii ''temple''] \<and>
      imageUrl p' = Some (ascii ''https://media.example/old.jpg'')"
      by (simp add: content_only_def no_fields_def kyoto_post_def)
    with h(1,2) show ?thesis by blast
  qed
  have second: "\<exists>p' st'. update_post example_env kyoto_id linked_image kyoto_state =
        ((200, Doc p'), st') \<and>
      findById example_env kyoto_id st' = Inr (Some p') \<and>
      title p' = ascii ''Kyoto'' \<and>
      imageUrl p' = Some (ascii ''https://media.example/linked.jpg'')"
  proof -
    from update_sets_supplied_keeps_omitted [OF kyoto_found l] obtain p' st' where
      h: "update_post example_env kyoto_id linked_image kyoto_state = ((200, Doc p'), st')"
        "findById example_env kyoto_id st' = Inr (Some p')"
        "title p' = (case body_title (body linked_image) of Some t \<Rightarrow> t
                     | None \<Rightarrow> title kyoto_post)"
        "imageUrl p' =
           (case req_file linked_image of
              Some f \<Rightarrow> (case uploader example_env f of Inr url \<Rightarrow> Some url
                         | Inl e \<Rightarrow> imageUrl kyoto_post)
            | None \<Rightarrow>
                (case body_imageUrl (body linked_image) of
                   Some u \<Rightarrow> if u = [] then imageUrl kyoto_post else Some u
                 | None \<Rightarrow> imageUrl kyoto_post))"
      by blast
    from h(3,4) nonempty have "title p' = ascii ''Kyoto'' \<and>
      imageUrl p' = Some (ascii ''https://media.example/linked.jpg'')"
      by (simp add: linked_image_def no_fields_def kyoto_post_def)
    with h(1,2) show ?thesis by blast
  qed
  have third: "\<exists>p' st'. update_post example_env kyoto_id attached_image kyoto_state =
        ((200, Doc p'), st') \<and>
      findById example_env kyoto_id st' = Inr (Some p') \<and>
      title p' = ascii ''Kyoto'' \<and>
      imageUrl p' = Some (ascii ''https://media.example/new.jpg'')"
  proof -
    from update_sets_supplied_keeps_omitted [OF kyoto_found a] obtain p' st' where
      h: "update_post example_env kyoto_id attached_image kyoto_state = ((200, Doc p'), st')"
        "findById example_env kyoto_id st' = Inr (Some p')"
        "title p' = (case body_title (body attached_image) of Some t \<Rightarrow> t
                     | None \<Rightarrow> title kyoto_post)"
        "imageUrl p' =
           (case req_file attached_image of
              Some f \<Rightarrow> (case uploader example_env f of Inr url \<Rightarrow> Some url
                         | Inl e \<Rightarrow> imageUrl kyoto_post)
            | None \<Rightarrow>
                (case body_imageUrl (body attached_image) of
                   Some u \<Rightarrow> if u = [] then imageUrl kyoto_post else Some u
                 | None \<Rightarrow> imageUrl kyoto_post))"
      by blast
    from h(3,4) u have "title p' = ascii ''Kyoto'' \<and>
      imageUrl p' = Some (ascii ''https://media.example/new.jpg'')"
      by (simp add: attached_image_def no_fields_def kyoto_post_def)
    with h(1,2) show ?thesis by blast
  qed
  from kyoto_found first second third show ?thesis by blast
qed

text \<open>
  An update that supplies only the content leaves the title, the location and the tags
  of the stored post as they were.
\<close>

theorem update_omitted_fields_counterexample:
  "body_title (body content_only) = None \<and> body_location (body content_only) = None \<and>
   body_tags (body content_only) = None \<and>
   findById example_env kyoto_id kyoto_state = Inr (Some kyoto_post) \<and>
   update_post example_env kyoto_id content_only kyoto_state =
     ((200, Doc (kyoto_post\<lparr>content := ascii ''ryokan'', updatedAt := 1003\<rparr>)),
      kyoto_state\<lparr>posts := [kyoto_post\<lparr>content := ascii ''ryokan'', updatedAt := 1003\<rparr>],
                  ticks := 4\<rparr>) \<and>
   title (kyoto_post\<lparr>content := ascii ''ryokan'', updatedAt := 1003\<rparr>) = ascii ''Kyoto'' \<and>
   location (kyoto_post\<lparr>content := ascii ''ryokan'', updatedAt := 1003\<rparr>) =
     Some (ascii ''Japan'') \<and>
   tags (kyoto_post\<lparr>content := ascii ''ryokan'', updatedAt := 1003\<rparr>) =
     [ascii ''asia'', ascii ''temple'']"
  by (simp add: update_post_def findById_def findByIdAndUpdate_def castObjectId_def hex24_def
      utf16_length_def kyoto_id_def kyoto_state_def kyoto_post_def content_only_def
      no_fields_def example_env_def Date_now_def apply_update_def js_or_def truthy_def
      is_hex_def lower_def ascii_def)


subsection \<open>Timestamps\<close>

lemma timestamps_ok_later:
  assumes "mono (clock env)" and "timestamps_ok env st"
    and "posts st' = posts st" and "ticks st \<le> ticks st'"
  shows "timestamps_ok env st'"
proof -
  have "clock env (ticks st) \<le> clock env (ticks st')"
    using assms(1,4) by (simp add: monoD)
  with assms(2,3) show ?thesis
    by (auto simp: timestamps_ok_def list_all_iff)
qed

lemma set_remove_first: "set (snd (remove_first i ps)) \<subseteq> set ps"
  by (induction ps) (auto simp: split_def Let_def)

lemma list_all_update_first:
  "list_all Q ps \<Longrightarrow> (\<And>p. Q p \<Longrightarrow> Q' p) \<Longrightarrow> (\<And>p. Q p \<Longrightarrow> Q' (f p)) \<Longrightarrow>
   list_all Q' (snd (update_first i f ps))"
  by (induction ps) (auto simp: split_def Let_def list_all_iff)

lemma create_post_created:
  assumes "create_post env rq st = ((201, Doc p), st')"
  shows "createdAt p = clock env (ticks st) \<and> updatedAt p = clock env (ticks st + 2) \<and>
         posts st' = posts st @ [p] \<and> ticks st' = ticks st + 3"
  using assms
  by (auto simp: create_post_def new_Post_def save_def pre_save_def Date_now_def upload_def
      Let_def split: if_splits option.splits sum.splits prod.splits)

lemma create_post_other:
  assumes "fst (fst (create_post env rq st)) \<noteq> 201"
  shows "posts (snd (create_post env rq st)) = posts st \<and>
         ticks st \<le> ticks (snd (create_post env rq st))"
  using assms
  by (auto simp: create_post_def new_Post_def save_def pre_save_def Date_now_def upload_def
      Let_def split: if_splits option.splits sum.splits prod.splits)

lemma snd_respond:
  "snd (case x of (Inl e, s) \<Rightarrow> (a e, s) | (Inr None, s) \<Rightarrow> (b, s)
        | (Inr (Some p), s) \<Rightarrow> (c p, s)) = snd x"
  by (simp split: prod.splits sum.splits option.splits)

lemma findByIdAndUpdate_timestamps:
  assumes "mono (clock env)" and "timestamps_ok env st0"
    and "posts st = posts st0" and "ticks st = Suc (ticks st0)"
    and "set_updatedAt u = clock env (ticks st0)"
  shows "timestamps_ok env (snd (findByIdAndUpdate env rid u st))"
proof (cases "castObjectId env rid")
  case None
  then have "snd (findByIdAndUpdate env rid u st) = st"
    by (simp add: findByIdAndUpdate_def)
  with timestamps_ok_later [OF assms(1,2,3)] assms(4) show ?thesis by simp
next
  case (Some i)
  have le: "clock env (ticks st0) \<le> clock env (Suc (ticks st0))"
    using assms(1) by (simp add: monoD)
  have "list_all (\<lambda>p. createdAt p \<le> updatedAt p \<and> updatedAt p \<le> clock env (Suc (ticks st0)))
          (snd (update_first i (apply_update u) (posts st0)))"
  proof (rule list_all_update_first)
    show "list_all (\<lambda>p. createdAt p \<le> updatedAt p \<and> updatedAt p \<le> clock env (ticks st0))
            (posts st0)"
      using assms(2) by (simp add: timestamps_ok_def)
  next
    fix p :: post
    assume "createdAt p \<le> updatedAt p \<and> updatedAt p \<le> clock env (ticks st0)"
    with le show "createdAt p \<le> updatedAt p \<and> updatedAt p \<le> clock env (Suc (ticks st0))"
      by simp
  next
    fix p :: post
    assume "createdAt p \<le> updatedAt p \<and> updatedAt p \<le> clock env (ticks st0)"
    with le assms(5)
    show "createdAt (apply_update u p) \<le> updatedAt (apply_update u p) \<and>
          updatedAt (apply_update u p) \<le> clock env (Suc (ticks st0))"
      by (simp add: apply_update_def)
  qed
  with Some assms(3,4) show ?thesis
    by (simp add: findByIdAndUpdate_def timestamps_ok_def split_def Let_def)
qed

lemma update_post_timestamps:
  assumes "mono (clock env)" and "timestamps_ok env st"
  shows "timestamps_ok env (snd (update_post env rid rq st))"
proof (cases "findById env rid st")
  case (Inl e)
  with assms(2) show ?thesis by (simp add: update_post_def)
next
  case (Inr r)
  show ?thesis
  proof (cases r)
    case None
    with Inr assms(2) show ?thesis by (simp add: update_post_def)
  next
    case (Some p)
    show ?thesis
    proof (cases "req_file rq")
      case None
      let ?u = "\<lparr>set_title = body_title (body rq), set_content = body_content (body rq),
                set_imageUrl = js_or (body_imageUrl (body rq)) (imageUrl p),
                set_location = body_location (body rq), set_tags = body_tags (body rq),
                set_updatedAt = clock env (ticks st)\<rparr>"
      have "snd (update_post env rid rq st) =
            snd (findByIdAndUpdate env rid ?u (st\<lparr>ticks := Suc (ticks st)\<rparr>))"
        using Inr Some None by (simp add: update_post_def Date_now_def snd_respond)
      moreover have "timestamps_ok env
            (snd (findByIdAndUpdate env rid ?u (st\<lparr>ticks := Suc (ticks st)\<rparr>)))"
        by (rule findByIdAndUpdate_timestamps [OF assms]) simp_all
      ultimately show ?thesis by simp
    next
      case (Some f)
      note attached = this
      show ?thesis
      proof (cases "uploader env f")
        case (Inl e)
        have "snd (update_post env rid rq st) = st\<lparr>uploads := uploads st @ [f]\<rparr>"
          using Inr \<open>r = Some p\<close> attached Inl by (simp add: update_post_def upload_def)
        moreover have "timestamps_ok env (st\<lparr>uploads := uploads st @ [f]\<rparr>)"
          by (rule timestamps_ok_later [OF assms]) simp_all
        ultimately show ?thesis by simp
      next
        case (Inr url)
        let ?u = "\<lparr>set_title = body_title (body rq), set_content = body_content (body rq),
                set_imageUrl = Some url,
                set_location = body_location (body rq), set_tags = body_tags (body rq),
                set_updatedAt = clock env (ticks st)\<rparr>"
        have "snd (update_post env rid rq st) =
              snd (findByIdAndUpdate env rid ?u
                     (st\<lparr>uploads := uploads st @ [f], ticks := Suc (ticks st)\<rparr>))"
          using \<open>findById env rid st = Inr r\<close> \<open>r = Some p\<close> attached Inr
          by (simp add: update_post_def Date_now_def upload_def snd_respond)
        moreover have "timestamps_ok env
              (snd (findByIdAndUpdate env rid ?u
                     (st\<lparr>uploads := uploads st @ [f], ticks := Suc (ticks st)\<rparr>)))"
          by (rule findByIdAndUpdate_timestamps [OF assms]) simp_all
        ultimately show ?thesis by simp
      qed
    qed
  qed
qed

lemma delete_post_state:
  "snd (delete_post env rid st) = snd (findByIdAndDelete env rid st)"
  by (simp add: delete_post_def snd_respond)

lemma findByIdAndDelete_state:
  "set (posts (snd (findByIdAndDelete env rid st))) \<subseteq> set (posts st) \<and>
   ticks (snd (findByIdAndDelete env rid st)) = ticks st"
  using set_remove_first
  by (auto simp: findByIdAndDelete_def split_def Let_def split: option.splits)

lemma delete_post_timestamps:
  assumes "timestamps_ok env st"
  shows "timestamps_ok env (snd (delete_post env rid st))"
  using assms findByIdAndDelete_state [of env rid st]
  by (auto simp: delete_post_state timestamps_ok_def list_all_iff)

lemma create_post_timestamps:
  assumes "mono (clock env)" and "timestamps_ok env st"
  shows "timestamps_ok env (snd (create_post env rq st))"
proof (cases "fst (fst (create_post env rq st)) = 201")
  case False
  from create_post_other [OF False] timestamps_ok_later [OF assms] show ?thesis by simp
next
  case True
  have "\<exists>p. create_post env rq st = ((201, Doc p), snd (create_post env rq st))"
    using True
    by (auto simp: create_post_def split: if_splits option.splits sum.splits prod.splits)
  then obtain p where p: "create_post env rq st = ((201, Doc p), snd (create_post env rq st))"
    by blast
  note c = create_post_created [OF p]
  have "clock env (ticks st) \<le> clock env (ticks st + 2)"
       "clock env (ticks st) \<le> clock env (ticks st + 3)"
       "clock env (ticks st + 2) \<le> clock env (ticks st + 3)"
    using assms(1) by (simp_all add: monoD)
  with c assms(2) show ?thesis
    by (auto simp: timestamps_ok_def list_all_iff)
qed

lemma get_posts_state: "snd (get_posts env search st) = st"
  by (simp add: get_posts_def Let_def split: sum.splits)

lemma handle_timestamps:
  assumes "mono (clock env)" and "timestamps_ok env st"
  shows "timestamps_ok env (snd (handle env r st))"
proof (cases r)
  case (ListPosts s)
  with assms(2) show ?thesis by (simp add: get_posts_state)
next
  case (GetPost rid)
  with assms(2) show ?thesis by (simp add: get_post_def split: sum.splits option.splits)
next
  case (CreatePost rq)
  with create_post_timestamps [OF assms] show ?thesis by simp
next
  case (UpdatePost rid rq)
  with update_post_timestamps [OF assms] show ?thesis by simp
next
  case (DeletePost rid)
  with delete_post_timestamps [OF assms(2)] show ?thesis by simp
next
  case ListTags
  with assms(2) show ?thesis by (simp add: get_tags_def)
qed

lemma serve_timestamps:
  "mono (clock env) \<Longrightarrow> timestamps_ok env st \<Longrightarrow> timestamps_ok env (serve env rs st)"
  by (induction rs arbitrary: st) (simp_all add: handle_timestamps)

lemma timestamps_ok_init: "timestamps_ok env init"
  by (simp add: timestamps_ok_def init_def)

lemmas eval_defs =
  create_post_def update_post_def new_Post_def save_def pre_save_def validate_def
  Date_now_def upload_def findById_def findByIdAndUpdate_def castObjectId_def
  apply_update_def js_or_def truthy_def truthy_tags_def create_tags_def cast_tags_def
  is_hex_def lower_def init_def example_env_def burst_env_def kyoto_request_def
  content_only_def no_fields_def kyoto_id_def kyoto_created_def hex24_def utf16_length_def
  ascii_def

lemma create_kyoto:
  "create_post example_env kyoto_request init =
     ((201, Doc kyoto_created), \<lparr>posts = [kyoto_created], uploads = [], ticks = 3, ids_made = 1\<rparr>)"
  by (simp add: eval_defs)

lemma mono_example: "mono (clock example_env)"
  by (simp add: example_env_def mono_def)

text \<open>
  Claim C3, as the code has it. Let the readings of the clock never decrease, and let
  the state be the one reached from the empty store by any sequence of requests. Then
  every stored post has \<open>createdAt \<le> updatedAt\<close>; a post that is created takes
  \<open>createdAt\<close> from the reading at its construction and \<open>updatedAt\<close> from the
  later reading of the \<^verbatim>\<open>pre('save')\<close> hook, so \<open>createdAt \<le> updatedAt\<close>; and a
  successful update keeps \<open>createdAt\<close> and sets \<open>updatedAt\<close> to the reading at the
  update, which is not below the value it replaces.
\<close>

theorem timestamps_after_every_request:
  assumes "mono (clock env)" and "st = serve env rs init"
  shows "(\<forall>p \<in> set (posts st). createdAt p \<le> updatedAt p) \<and>
         (\<forall>rq p st'. create_post env rq st = ((201, Doc p), st') \<longrightarrow>
            createdAt p = clock env (ticks st) \<and> updatedAt p = clock env (ticks st + 2) \<and>
            createdAt p \<le> updatedAt p) \<and>
         (\<forall>rid rq p p' st'.
            findById env rid st = Inr (Some p) \<and>
            update_post env rid rq st = ((200, Doc p'), st') \<longrightarrow>
            createdAt p' = createdAt p \<and> updatedAt p' = clock env (ticks st) \<and>
            updatedAt p \<le> updatedAt p')"
proof -
  have ok: "timestamps_ok env st"
    using assms serve_timestamps [OF assms(1) timestamps_ok_init] by simp
  have first: "\<forall>p \<in> set (posts st). createdAt p \<le> updatedAt p"
    using ok by (simp add: timestamps_ok_def list_all_iff)
  have second: "createdAt p = clock env (ticks st) \<and> updatedAt p = clock env (ticks st + 2) \<and>
            createdAt p \<le> updatedAt p"
    if "create_post env rq st = ((201, Doc p), st')" for rq p st'
  proof -
    have "clock env (ticks st) \<le> clock env (ticks st + 2)"
      using assms(1) by (simp add: monoD)
    with create_post_created [OF that] show ?thesis by simp
  qed
  have third: "createdAt p' = createdAt p \<and> updatedAt p' = clock env (ticks st) \<and>
            updatedAt p \<le> updatedAt p'"
    if found: "findById env rid st = Inr (Some p)"
      and upd: "update_post env rid rq st = ((200, Doc p'), st')" for rid rq p p' st'
  proof -
    from findById_Some [OF found] have "p \<in> set (posts st)"
      by (auto simp: find_Some_iff)
    with ok have le: "updatedAt p \<le> clock env (ticks st)"
      by (simp add: timestamps_ok_def list_all_iff)
    have "\<exists>u. p' = apply_update u p \<and> set_updatedAt u = clock env (ticks st)"
    proof (cases "req_file rq")
      case None
      from update_post_no_file [OF found None] upd show ?thesis by auto
    next
      case (Some f)
      show ?thesis
      proof (cases "uploader env f")
        case (Inl e)
        with found Some upd show ?thesis by (simp add: update_post_def upload_def)
      next
        case (Inr url)
        from update_post_with_file [OF found Some Inr] upd show ?thesis by auto
      qed
    qed
    with le show ?thesis by (auto simp: apply_update_def)
  qed
  from first second third show ?thesis by blast
qed

theorem timestamps_after_every_request_witness:
  "mono (clock example_env) \<and>
   posts (serve example_env [CreatePost kyoto_request] init) = [kyoto_created] \<and>
   createdAt kyoto_created \<le> updatedAt kyoto_created \<and>
   (\<exists>p st'. create_post example_env kyoto_request (serve example_env [] init) =
        ((201, Doc p), st') \<and>
      createdAt p = 1000 \<and> updatedAt p = 1002)"
proof -
  have s: "posts (serve example_env [CreatePost kyoto_request] init) = [kyoto_created]"
    by (simp add: create_kyoto)
  from timestamps_after_every_request
         [OF mono_example refl, of "[CreatePost kyoto_request]"]
  have a: "createdAt kyoto_created \<le> updatedAt kyoto_created"
    by (simp add: create_kyoto)
  from timestamps_after_every_request [OF mono_example refl, of "[]"]
  have "\<forall>rq p st'. create_post example_env rq init = ((201, Doc p), st') \<longrightarrow>
          createdAt p = clock example_env (ticks init) \<and>
          updatedAt p = clock example_env (ticks init + 2)"
    by simp
  with create_kyoto
  have b: "createdAt kyoto_created = 1000 \<and> updatedAt kyoto_created = 1002"
    by (simp add: kyoto_created_def)
  from mono_example s a b create_kyoto show ?thesis by simp
qed

text \<open>
  At creation the two timestamps differ when the clock moves between the construction
  of the document and the hook; and an update that reads the clock in the millisecond
  of the previous update leaves \<open>updatedAt\<close> as it was.
\<close>

theorem timestamps_counterexample:
  "create_post example_env kyoto_request init =
     ((201, Doc kyoto_created), \<lparr>posts = [kyoto_created], uploads = [], ticks = 3, ids_made = 1\<rparr>) \<and>
   createdAt kyoto_created = 1000 \<and> updatedAt kyoto_created = 1002 \<and>
   posts (serve burst_env [CreatePost kyoto_request, UpdatePost kyoto_id content_only] init) =
     [kyoto_created\<lparr>content := ascii ''ryokan'', updatedAt := 2000\<rparr>] \<and>
   fst (update_post burst_env kyoto_id content_only
          (serve burst_env [CreatePost kyoto_request, UpdatePost kyoto_id content_only] init)) =
     (200, Doc (kyoto_created\<lparr>content := ascii ''ryokan'', updatedAt := 2000\<rparr>))"
  by (simp add: eval_defs)


subsection \<open>Listing and searching\<close>

lemma matches_at_prefix:
  "matches_at env p s \<longleftrightarrow> prefix (map (canonicalize env) p) (map (canonicalize env) s)"
  by (induction env p s rule: matches_at.induct) simp_all

lemma search_from_appears_in: "search_from env p s \<longleftrightarrow> appears_in env p s"
  by (induction s) (simp_all add: appears_in_def matches_at_prefix sublist_Cons_right)

lemma split_bar_no_bar: "bar \<notin> set p \<Longrightarrow> split_bar p = [p]"
  by (induction p) auto

lemma bar_not_plain: "\<not> is_plain bar"
  by (simp add: is_plain_def is_syntax_character_def syntax_characters_def bar_def ascii_def)

lemma literal_pattern:
  assumes "list_all is_plain p"
  shows "new_RegExp env p = Inr (test_alternatives env [p])"
proof -
  from assms bar_not_plain have "bar \<notin> set p" by (auto simp: list_all_iff)
  moreover from assms have "in_fragment p" by (auto simp: in_fragment_def list_all_iff)
  ultimately show ?thesis by (simp add: new_RegExp_def split_bar_no_bar)
qed

lemma or_query_literal:
  "or_query (test_alternatives env [t]) p \<longleftrightarrow> term_in_post env t p"
  by (auto simp: or_query_def test_alternatives_def term_in_post_def search_from_appears_in
      list_ex_iff split: option.splits)

lemma sorted_createdAt_desc:
  "sorted_wrt (\<lambda>a b. createdAt b \<le> createdAt a) (sort_createdAt_desc ps)"
proof -
  have "sorted (map (\<lambda>p. - createdAt p) (sort_key (\<lambda>p. - createdAt p) ps))"
    by (rule sorted_sort_key)
  then show ?thesis by (simp add: sort_createdAt_desc_def sorted_map)
qed

lemma mset_sort_createdAt_desc: "mset (sort_createdAt_desc ps) = mset ps"
  by (simp add: sort_createdAt_desc_def)

lemmas listing_defs =
  get_posts_def get_tags_def truthy_def trim_def is_space_def new_RegExp_def in_fragment_def
  is_plain_def is_syntax_character_def syntax_characters_def bar_def test_alternatives_def
  or_query_def canonicalize_def sort_createdAt_desc_def aggregate_tags_def sort_tag_asc_def
  group_by_tag_def unwind_tags_def journal_state_def kyoto_state_def kyoto_post_def
  nara_post_def example_env_def padded_kyo_def ascii_def

lemma list_kyo:
  "get_posts example_env (Some padded_kyo) journal_state =
     ((200, Docs [kyoto_post]), journal_state)"
  by (simp add: listing_defs)

text \<open>
  Claim C6, as the code has it. When a search term is present and not empty, and the
  trimmed term holds plain characters only (no syntax character of regular expressions,
  and none of U+0000, U+2028, U+2029 and the surrogates), the listing succeeds and
  returns exactly the posts in which the trimmed term appears, without regard to letter
  case in the engine's folding, as a contiguous part of the title, the content, the
  location or one of the tags.
\<close>

theorem search_literal_term:
  assumes "search = Some s" and "s \<noteq> []" and "list_all is_plain (trim s)"
  shows "\<exists>ps. get_posts env search st = ((200, Docs ps), st) \<and>
           mset ps = mset (filter (term_in_post env (trim s)) (posts st))"
proof -
  have "filter (or_query (test_alternatives env [trim s])) (posts st) =
        filter (term_in_post env (trim s)) (posts st)"
    by (rule filter_cong) (simp_all add: or_query_literal)
  with assms literal_pattern [OF assms(3), of env] show ?thesis
    by (simp add: get_posts_def truthy_def mset_sort_createdAt_desc)
qed

theorem search_literal_term_witness:
  "padded_kyo = 160 # ascii ''KYO '' \<and> trim padded_kyo = ascii ''KYO'' \<and>
   list_all is_plain (ascii ''KYO'') \<and>
   get_posts example_env (Some padded_kyo) journal_state =
     ((200, Docs [kyoto_post]), journal_state) \<and>
   mset [kyoto_post] = mset (filter (term_in_post example_env (ascii ''KYO'')) (posts journal_state))"
proof -
  have t: "trim padded_kyo = ascii ''KYO''"
    by (simp add: trim_def is_space_def padded_kyo_def ascii_def)
  have l: "list_all is_plain (trim padded_kyo)"
    by (simp add: t is_plain_def is_syntax_character_def syntax_characters_def ascii_def)
  have n: "padded_kyo \<noteq> []" by (simp add: padded_kyo_def)
  have d: "padded_kyo = 160 # ascii ''KYO ''" by (simp add: padded_kyo_def)
  from search_literal_term [OF refl n l, of example_env journal_state]
  have "mset [kyoto_post] =
        mset (filter (term_in_post example_env (ascii ''KYO'')) (posts journal_state))"
    by (simp add: list_kyo t)
  with d t l list_kyo show ?thesis by simp
qed

text \<open>
  A term with a syntax character is a pattern, not a text to find: the term
  \<^verbatim>\<open>kyoto|nara\<close> returns both posts of the example, and appears in neither.
\<close>

theorem search_pattern_counterexample:
  "get_posts example_env (Some (ascii ''kyoto|nara'')) journal_state =
     ((200, Docs [nara_post, kyoto_post]), journal_state) \<and>
   filter (term_in_post example_env (ascii ''kyoto|nara'')) (posts journal_state) = []"
proof -
  have "get_posts example_env (Some (ascii ''kyoto|nara'')) journal_state =
     ((200, Docs [nara_post, kyoto_post]), journal_state)"
    by (simp add: listing_defs)
  moreover have "\<not> or_query (test_alternatives example_env [ascii ''kyoto|nara'']) kyoto_post"
    by (simp add: listing_defs)
  moreover have "\<not> or_query (test_alternatives example_env [ascii ''kyoto|nara'']) nara_post"
    by (simp add: listing_defs)
  ultimately show ?thesis
    by (simp add: or_query_literal journal_state_def)
qed

text \<open>
  Claim C7. A listing without a search term (or with the empty one) succeeds and
  returns every post of the collection, each as often as it is stored; and whatever
  the search term, a listing that succeeds is ordered by \<open>createdAt\<close>, newest first.
\<close>

theorem listing_complete_and_sorted:
  "(search = None \<or> search = Some [] \<longrightarrow>
      (\<exists>ps. get_posts env search st = ((200, Docs ps), st) \<and> mset ps = mset (posts st))) \<and>
   (\<forall>ps. fst (get_posts env search st) = (200, Docs ps) \<longrightarrow>
      sorted_wrt (\<lambda>a b. createdAt b \<le> createdAt a) ps)"
proof -
  have "\<exists>ps. get_posts env search st = ((200, Docs ps), st) \<and> mset ps = mset (posts st)"
    if "search = None \<or> search = Some []"
    using that by (auto simp: get_posts_def truthy_def mset_sort_createdAt_desc)
  moreover have "sorted_wrt (\<lambda>a b. createdAt b \<le> createdAt a) ps"
    if "fst (get_posts env search st) = (200, Docs ps)" for ps
    using that sorted_createdAt_desc
    by (auto simp: get_posts_def Let_def split: if_splits sum.splits)
  ultimately show ?thesis by blast
qed

theorem listing_complete_and_sorted_witness:
  "get_posts example_env None journal_state =
     ((200, Docs [nara_post, kyoto_post]), journal_state) \<and>
   mset [nara_post, kyoto_post] = mset (posts journal_state) \<and>
   sorted_wrt (\<lambda>a b. createdAt b \<le> createdAt a) [nara_post, kyoto_post]"
proof -
  have g: "get_posts example_env None journal_state =
     ((200, Docs [nara_post, kyoto_post]), journal_state)"
    by (simp add: listing_defs)
  from listing_complete_and_sorted [of None example_env journal_state]
  show ?thesis by (simp add: g)
qed

subsection \<open>Listing the tags\<close>






subsection \<open>Deleting a post\<close>

lemma remove_first_None:
  "find (\<lambda>p. oid p = i) ps = None \<Longrightarrow> remove_first i ps = (None, ps)"
  by (induction ps) (auto split: if_splits)

lemma remove_first_Some:
  "find (\<lambda>p. oid p = i) ps = Some p \<Longrightarrow> remove_first i ps = (Some p, remove1 p ps)"
  by (induction ps) (auto dest: find_oid split: if_splits)

lemma find_removed:
  assumes "find (\<lambda>p. oid p = i) ps = Some p" and "distinct (map oid ps)"
  shows "find (\<lambda>q. oid q = i) (remove1 p ps) = None"
proof -
  have p: "p \<in> set ps" "oid p = i"
    using assms(1) by (auto simp: find_Some_iff dest: find_oid)
  have d: "distinct ps" "inj_on oid (set ps)"
    using assms(2) by (auto simp: distinct_map)
  have "oid q \<noteq> i" if q: "q \<in> set (remove1 p ps)" for q
  proof
    assume "oid q = i"
    moreover from q d(1) have "q \<in> set ps" "q \<noteq> p" by auto
    ultimately show False using p d(2) by (auto dest: inj_onD)
  qed
  then show ?thesis by (auto simp: find_None_iff)
qed

lemma delete_post_cast:
  "delete_post env rid st =
     (case castObjectId env rid of
        None \<Rightarrow> ((500, Message (message_of env (CastError rid))), st)
      | Some i \<Rightarrow>
          (case find (\<lambda>q. oid q = i) (posts st) of
             None \<Rightarrow> ((404, Message ''Post not found''), st)
           | Some p \<Rightarrow>
               ((200, Message ''Post deleted successfully''),
                st\<lparr>posts := remove1 p (posts st)\<rparr>)))"
  by (auto simp: delete_post_def findByIdAndDelete_def remove_first_None remove_first_Some
      split: option.splits)

lemmas delete_defs =
  castObjectId_def hex24_def utf16_length_def is_hex_def lower_def example_env_def
  legacy_env_def journal_state_def kyoto_post_def nara_post_def kyoto_id_def ascii_def

text \<open>
  Claim C9, as the code has it. A delete request whose identifier is 24 hexadecimal
  digits and matches no post is answered with status 404, and the state is as before;
  one whose identifier is 24 hexadecimal digits and matches a post is answered with
  status 200, that post is removed, and, the identifiers of the collection being
  distinct, no post answers to the identifier afterwards; one whose identifier is neither
  24 hexadecimal digits nor 12 code units long is answered with status 500 and the
  message of the store's cast error, and the state is as before. An identifier of 12 code
  units that the driver refuses is answered with 500 as well; one that the driver takes
  is answered as the identifier it stands for.
\<close>

theorem delete_post_cases:
  "(hex24 rid \<and> find (\<lambda>q. oid q = map lower rid) (posts st) = None \<longrightarrow>
      delete_post env rid st = ((404, Message ''Post not found''), st)) \<and>
   (\<forall>p. hex24 rid \<and> find (\<lambda>q. oid q = map lower rid) (posts st) = Some p \<longrightarrow>
      delete_post env rid st =
        ((200, Message ''Post deleted successfully''), st\<lparr>posts := remove1 p (posts st)\<rparr>) \<and>
      (distinct (map oid (posts st)) \<longrightarrow>
         findById env rid (st\<lparr>posts := remove1 p (posts st)\<rparr>) = Inr None)) \<and>
   (\<not> hex24 rid \<and> utf16_length rid \<noteq> 12 \<longrightarrow>
      delete_post env rid st = ((500, Message (message_of env (CastError rid))), st)) \<and>
   (\<not> hex24 rid \<and> utf16_length rid = 12 \<longrightarrow>
      delete_post env rid st =
        (case legacy_id env rid of
           None \<Rightarrow> ((500, Message (message_of env (CastError rid))), st)
         | Some i \<Rightarrow>
             (case find (\<lambda>q. oid q = i) (posts st) of
                None \<Rightarrow> ((404, Message ''Post not found''), st)
              | Some p \<Rightarrow>
                  ((200, Message ''Post deleted successfully''),
                   st\<lparr>posts := remove1 p (posts st)\<rparr>))))"
  by (auto simp: delete_post_cast castObjectId_def findById_def find_removed)

theorem delete_post_cases_witness:
  "delete_post example_env (ascii ''cccccccccccccccccccccccc'') journal_state =
     ((404, Message ''Post not found''), journal_state) \<and>
   delete_post example_env (ascii ''AAAAAAAAAAAAAAAAAAAAAAAA'') journal_state =
     ((200, Message ''Post deleted successfully''), journal_state\<lparr>posts := [nara_post]\<rparr>) \<and>
   findById example_env (ascii ''AAAAAAAAAAAAAAAAAAAAAAAA'')
     (journal_state\<lparr>posts := [nara_post]\<rparr>) = Inr None \<and>
   delete_post example_env (ascii ''kyoto'') journal_state =
     ((500, Message (message_of example_env (CastError (ascii ''kyoto'')))), journal_state) \<and>
   delete_post example_env (ascii ''abcdefghijkl'') journal_state =
     ((500, Message (message_of example_env (CastError (ascii ''abcdefghijkl'')))),
      journal_state) \<and>
   delete_post legacy_env (ascii ''abcdefghijkl'') journal_state =
     ((404, Message ''Post not found''), journal_state)"
proof -
  have c: "hex24 (ascii ''cccccccccccccccccccccccc'')"
    by (simp add: delete_defs)
  have n: "find (\<lambda>q. oid q = map lower (ascii ''cccccccccccccccccccccccc''))
             (posts journal_state) = None"
    by (simp add: delete_defs)
  have k: "hex24 (ascii ''AAAAAAAAAAAAAAAAAAAAAAAA'')"
    by (simp add: delete_defs)
  have f: "find (\<lambda>q. oid q = map lower (ascii ''AAAAAAAAAAAAAAAAAAAAAAAA''))
             (posts journal_state) = Some kyoto_post"
    by (simp add: delete_defs)
  have d: "distinct (map oid (posts journal_state))"
    by (simp add: delete_defs)
  have r: "remove1 kyoto_post (posts journal_state) = [nara_post]"
    by (simp add: delete_defs)
  have m: "\<not> hex24 (ascii ''kyoto'') \<and> utf16_length (ascii ''kyoto'') \<noteq> 12"
    by (simp add: delete_defs)
  have t: "\<not> hex24 (ascii ''abcdefghijkl'') \<and> utf16_length (ascii ''abcdefghijkl'') = 12"
    by (simp add: delete_defs)
  have e: "legacy_id example_env (ascii ''abcdefghijkl'') = None"
    by (simp add: delete_defs)
  have l: "legacy_id legacy_env (ascii ''abcdefghijkl'') = Some (ascii ''abcdefghijkl'')"
    by (simp add: delete_defs)
  have u: "find (\<lambda>q. oid q = ascii ''abcdefghijkl'') (posts journal_state) = None"
    by (simp add: delete_defs)
  from delete_post_cases [of "ascii ''cccccccccccccccccccccccc''" journal_state example_env]
    delete_post_cases [of "ascii ''AAAAAAAAAAAAAAAAAAAAAAAA''" journal_state example_env]
    delete_post_cases [of "ascii ''kyoto''" journal_state example_env]
    delete_post_cases [of "ascii ''abcdefghijkl''" journal_state example_env]
    delete_post_cases [of "ascii ''abcdefghijkl''" journal_state legacy_env]
  show ?thesis using c n k f d r m t e l u by simp
qed

text \<open>
  The text \<^verbatim>\<open>kyoto\<close> is the identifier of no post, and the answer is 500, not 404.
\<close>

theorem delete_malformed_counterexample:
  "list_all (\<lambda>p. oid p \<noteq> ascii ''kyoto'') (posts journal_state) \<and>
   delete_post example_env (ascii ''kyoto'') journal_state =
     ((500, Message (message_of example_env (CastError (ascii ''kyoto'')))), journal_state)"
  by (simp add: delete_post_def findByIdAndDelete_def delete_defs)


subsection \<open>Identifiers are unique\<close>

lemma map_oid_update_first:
  "map oid (snd (update_first i (apply_update u) ps)) = map oid ps"
  by (induction ps) (simp_all add: split_def Let_def oid_apply_update)

lemma findByIdAndUpdate_oids:
  "map oid (posts (snd (findByIdAndUpdate env rid u st))) = map oid (posts st)"
  by (simp add: findByIdAndUpdate_def split_def Let_def map_oid_update_first
      split: option.splits)

lemma update_post_oids:
  "map oid (posts (snd (update_post env rid rq st))) = map oid (posts st)"
  by (simp add: update_post_def Date_now_def upload_def snd_respond findByIdAndUpdate_oids
      split_def Let_def split: sum.splits option.splits)

lemma distinct_remove_first:
  "distinct (map oid ps) \<Longrightarrow> distinct (map oid (snd (remove_first i ps)))"
  using set_remove_first by (induction ps) (auto simp: split_def Let_def)

lemma delete_post_oids:
  "distinct (map oid (posts st)) \<Longrightarrow> distinct (map oid (posts (snd (delete_post env rid st))))"
  by (simp add: delete_post_state findByIdAndDelete_def split_def Let_def
      distinct_remove_first split: option.splits)

lemma create_post_fresh:
  assumes "create_post env rq st = ((201, Doc p), st')"
  shows "oid p \<notin> oid ` set (posts st)"
  using assms
  by (auto simp: create_post_def new_Post_def save_def pre_save_def Date_now_def upload_def
      Let_def list_ex_iff split: if_splits option.splits sum.splits prod.splits)

lemma create_post_oids:
  assumes "distinct (map oid (posts st))"
  shows "distinct (map oid (posts (snd (create_post env rq st))))"
proof (cases "fst (fst (create_post env rq st)) = 201")
  case False
  from create_post_other [OF False] assms show ?thesis by simp
next
  case True
  have "\<exists>p. create_post env rq st = ((201, Doc p), snd (create_post env rq st))"
    using True
    by (auto simp: create_post_def split: if_splits option.splits sum.splits prod.splits)
  then obtain p where p: "create_post env rq st = ((201, Doc p), snd (create_post env rq st))"
    by blast
  from create_post_created [OF p] create_post_fresh [OF p] assms show ?thesis by simp
qed

lemma handle_oids:
  assumes "distinct (map oid (posts st))"
  shows "distinct (map oid (posts (snd (handle env r st))))"
proof (cases r)
  case (ListPosts s)
  with assms show ?thesis by (simp add: get_posts_state)
next
  case (GetPost rid)
  with assms show ?thesis by (simp add: get_post_def split: sum.splits option.splits)
next
  case (CreatePost rq)
  with create_post_oids [OF assms] show ?thesis by simp
next
  case (UpdatePost rid rq)
  with assms show ?thesis by (simp add: update_post_oids)
next
  case (DeletePost rid)
  with delete_post_oids [OF assms] show ?thesis by simp
next
  case ListTags
  with assms show ?thesis by (simp add: get_tags_def)
qed

lemma serve_oids:
  "distinct (map oid (posts st)) \<Longrightarrow> distinct (map oid (posts (serve env rs st)))"
  by (induction rs arbitrary: st) (simp_all add: handle_oids)

lemma identifiers_unique: "distinct (map oid (posts (serve env rs init)))"
  by (rule serve_oids) (simp add: init_def)

end
